theory Spec2Isabelle
  imports Main "HOL-Library.Sublist"
begin

section \<open>Strings\<close>

text \<open>
  A Python \<open>str\<close> is modelled as a \<open>string\<close> holding its UTF-8 bytes. The pipeline only
  concatenates strings, compares them and searches them for ASCII needles
  (\<open>"Error" in s\<close>); UTF-8 encoding commutes with all three, since an ASCII byte never
  occurs inside a multi-byte sequence. The emoji and the box-drawing character of the
  source's literals are spelled out as their bytes.
\<close>

definition py_in :: "string \<Rightarrow> string \<Rightarrow> bool" where
  \<comment> \<open>\<open>needle in hay\<close> on \<open>str\<close>: \<open>needle\<close> occurs as a contiguous substring.\<close>
  "py_in needle hay = sublist needle hay"

definition nl :: string where
  "nl = [CHR 0x0A]"

definition emoji_mag :: string where
  "emoji_mag = [CHR 0xF0, CHR 0x9F, CHR 0x94, CHR 0x8D]"

definition emoji_page :: string where
  "emoji_page = [CHR 0xF0, CHR 0x9F, CHR 0x93, CHR 0x84]"

definition emoji_memo :: string where
  "emoji_memo = [CHR 0xF0, CHR 0x9F, CHR 0x93, CHR 0x9D]"

definition emoji_sparkles :: string where
  "emoji_sparkles = [CHR 0xE2, CHR 0x9C, CHR 0xA8]"

definition emoji_target :: string where
  "emoji_target = [CHR 0xF0, CHR 0x9F, CHR 0x8E, CHR 0xAF]"

definition emoji_check :: string where
  "emoji_check = [CHR 0xE2, CHR 0x9C, CHR 0x85]"

definition emoji_books :: string where
  "emoji_books = [CHR 0xF0, CHR 0x9F, CHR 0x93, CHR 0x9A]"

definition box_dash :: string where
  "box_dash = [CHR 0xE2, CHR 0x94, CHR 0x80]"

section \<open>Exceptions and effects\<close>

text \<open>
  An exception is the value \<open>Exception msg\<close>, where \<open>msg\<close> is what \<open>str(e)\<close> returns.
  A computation that may raise and may call the generation collaborator returns its
  outcome (\<open>Inl\<close> the exception raised, \<open>Inr\<close> the value returned) together with the
  list of prompts it sent to the collaborator, in order.
\<close>

datatype exn = Exception (str: string)

type_synonym 'a eff = "(exn + 'a) \<times> string list"

definition eff_return :: "'a \<Rightarrow> 'a eff" where
  "eff_return x = (Inr x, [])"

definition eff_bind :: "'a eff \<Rightarrow> ('a \<Rightarrow> 'b eff) \<Rightarrow> 'b eff" where
  \<comment> \<open>Sequencing: an exception in the first part skips the rest.\<close>
  "eff_bind m f =
     (case m of
        (Inl e, l) \<Rightarrow> (Inl e, l)
      | (Inr x, l) \<Rightarrow> (case f x of (r, l') \<Rightarrow> (r, l @ l')))"

definition eff_catch :: "'a eff \<Rightarrow> (exn \<Rightarrow> 'a) \<Rightarrow> 'a \<times> string list" where
  \<comment> \<open>\<open>try: m except Exception as e: return h e\<close>, with a handler that cannot raise.\<close>
  "eff_catch m h =
     (case m of
        (Inl e, l) \<Rightarrow> (h e, l)
      | (Inr x, l) \<Rightarrow> (x, l))"

section \<open>Dictionaries, numbers and case conversion\<close>

definition dict_get :: "('k \<rightharpoonup> 'v) \<Rightarrow> 'k \<Rightarrow> 'v \<Rightarrow> 'v" where
  \<comment> \<open>\<open>d.get(k, default)\<close>\<close>
  "dict_get d k dflt = (case d k of Some v \<Rightarrow> v | None \<Rightarrow> dflt)"

definition dict_index :: "(string \<rightharpoonup> 'v) \<Rightarrow> string \<Rightarrow> 'v eff" where
  \<comment> \<open>\<open>d[k]\<close>: a missing key raises \<open>KeyError(k)\<close>, whose \<open>str\<close> is the quoted key.\<close>
  "dict_index d k =
     (case d k of
        Some v \<Rightarrow> (Inr v, [])
      | None \<Rightarrow> (Inl (Exception ([CHR 0x27] @ k @ [CHR 0x27])), []))"

definition digit_char :: "nat \<Rightarrow> char" where
  "digit_char d = ''0123456789'' ! (d mod 10)"

fun str_nat :: "nat \<Rightarrow> string" where
  "str_nat n = (if n < 10 then [digit_char n] else str_nat (n div 10) @ [digit_char n])"

declare str_nat.simps [simp del]

definition upper_char :: "char \<Rightarrow> char" where
  "upper_char c =
     (case map_of (zip ''abcdefghijklmnopqrstuvwxyz'' ''ABCDEFGHIJKLMNOPQRSTUVWXYZ'') c of
        Some u \<Rightarrow> u
      | None \<Rightarrow> c)"

definition ascii_upper :: "string \<Rightarrow> string" where
  \<comment> \<open>what \<open>s.upper()\<close> is on ASCII text: the stand-in for \<open>str.upper\<close> in the examples\<close>
  "ascii_upper s = map upper_char s"


section \<open>The retrieval adapter (agents.py, DocumentRetrieverTool)\<close>

record document =
  page_content :: string
  metadata :: "string \<rightharpoonup> string"

text \<open>
  The underlying retriever is any object; what the adapter probes with \<open>hasattr\<close> is which
  of three capabilities it has. A capability that is present maps the query to the
  documents found, or raises.
\<close>

record retriever_obj =
  get_relevant_documents :: "(string \<Rightarrow> exn + document list) option"
  invoke :: "(string \<Rightarrow> exn + document list) option"
  call :: "(string \<Rightarrow> exn + document list) option"

definition empty_result_marker :: string where
  "empty_result_marker = ''No relevant documents found for the query.''"

definition unsupported_marker :: string where
  "unsupported_marker = ''Error: Retriever object has no compatible method''"

text \<open>
  \<open>str.upper\<close> maps every cased character of Unicode. It is a parameter, \<open>str_upper\<close>, of
  the adapter and of everything built on it, so what is proved holds whatever it
  computes. The examples pass \<open>ascii_upper\<close>, which is \<open>str.upper\<close> on the ASCII text
  they contain.
\<close>

definition doc_header :: "(string \<Rightarrow> string) \<Rightarrow> nat \<Rightarrow> document \<Rightarrow> string" where
  "doc_header str_upper i doc =
     (let source = dict_get (metadata doc) ''source_file'' ''Unknown'';
          file_type = dict_get (metadata doc) ''file_format'' ''Unknown''
      in emoji_page @ '' DOCUMENT '' @ str_nat i @ '' - '' @ source
           @ '' ('' @ str_upper file_type @ '')'' @ nl)"

fun render_docs :: "(string \<Rightarrow> string) \<Rightarrow> nat \<Rightarrow> document list \<Rightarrow> string" where
  \<comment> \<open>the body of \<open>for i, doc in enumerate(docs, i): result += ...\<close>\<close>
  "render_docs str_upper i [] = []"
| "render_docs str_upper i (doc # docs) =
     doc_header str_upper i doc
     @ ''Content: '' @ page_content doc @ nl
     @ concat (replicate 80 box_dash) @ nl @ nl
     @ render_docs str_upper (Suc i) docs"

definition probe :: "retriever_obj \<Rightarrow> string \<Rightarrow> (exn + document list) option" where
  \<comment> \<open>the \<open>if hasattr ... elif hasattr ... elif hasattr ... else\<close> chain; \<open>None\<close> is the \<open>else\<close>\<close>
  "probe r q =
     (case get_relevant_documents r of
        Some f \<Rightarrow> Some (f q)
      | None \<Rightarrow>
          (case invoke r of
             Some f \<Rightarrow> Some (f q)
           | None \<Rightarrow>
               (case call r of
                  Some f \<Rightarrow> Some (f q)
                | None \<Rightarrow> None)))"

definition retrieval_result :: "(string \<Rightarrow> string) \<Rightarrow> exn + document list \<Rightarrow> string" where
  \<comment> \<open>what \<open>run\<close> returns once a capability was called: it raised, or it found \<open>docs\<close>\<close>
  "retrieval_result str_upper res =
     (case res of
        Inl e \<Rightarrow> ''Error retrieving documents: '' @ str e
      | Inr docs \<Rightarrow>
          if docs = [] then empty_result_marker
          else emoji_mag @ '' RETRIEVED DOCUMENTS:'' @ nl @ nl @ render_docs str_upper 1 docs)"

definition DocumentRetrieverTool_run :: "(string \<Rightarrow> string) \<Rightarrow> retriever_obj \<Rightarrow> string \<Rightarrow> string eff" where
  "DocumentRetrieverTool_run str_upper r q =
     (case probe r q of
        None \<Rightarrow> (Inr unsupported_marker, [])
      | Some res \<Rightarrow> (Inr (retrieval_result str_upper res), []))"

section \<open>The generating stages (agents.py, ContentSummarizerTool and DocumentAnalyzerTool)\<close>

text \<open>
  The generation collaborator maps a prompt to the text generated, or raises. A failure
  of \<open>genai.configure\<close>, of the model's construction or of reading \<open>response.text\<close> lands
  in the same \<open>except\<close> clause as a failure of \<open>generate_content\<close>, and is modelled as one.
\<close>

type_synonym generator = "string \<Rightarrow> exn + string"

definition summary_prompt :: "string \<Rightarrow> string" where
  "summary_prompt text =
     ''As an expert content summarizer, please provide a comprehensive summary of the following text that preserves all critical information while being concise and well-organized:'' @ nl
     @ nl
     @ ''TEXT TO SUMMARIZE:'' @ nl
     @ text
     @ nl
     @ nl
     @ ''SUMMARY REQUIREMENTS:'' @ nl
     @ ''- Preserve all key facts, data points, and concepts'' @ nl
     @ ''- Maintain context and relationships between ideas'' @ nl
     @ ''- Highlight the most important information'' @ nl
     @ ''- Ensure technical accuracy'' @ nl
     @ ''- Organize in a logical, readable structure'' @ nl
     @ nl
     @ ''COMPREHENSIVE SUMMARY:''"

definition ContentSummarizerTool_run :: "generator \<Rightarrow> string \<Rightarrow> string eff" where
  "ContentSummarizerTool_run gen text =
     (let prompt = summary_prompt text
      in case gen prompt of
           Inr response_text \<Rightarrow> (Inr (emoji_memo @ '' SUMMARY:'' @ nl @ response_text), [prompt])
         | Inl e \<Rightarrow> (Inr (''Error generating summary: '' @ str e), [prompt]))"

definition analysis_prompt :: "string \<Rightarrow> string" where
  "analysis_prompt text =
     ''As a senior document analyst, perform a comprehensive analysis of the following content:'' @ nl
     @ nl
     @ ''CONTENT FOR ANALYSIS:'' @ nl
     @ text
     @ nl
     @ nl
     @ ''ANALYSIS REQUIREMENTS:'' @ nl
     @ ''1. Identify and categorize main themes and key concepts'' @ nl
     @ ''2. Extract and highlight important data points, statistics, and metrics'' @ nl
     @ ''3. Analyze methodologies, approaches, or frameworks used'' @ nl
     @ ''4. Identify relationships, patterns, and connections between elements'' @ nl
     @ ''5. Note significant findings, conclusions, or recommendations'' @ nl
     @ ''6. Point out any gaps, contradictions, or areas needing clarification'' @ nl
     @ ''7. Provide insights on practical applications or implications'' @ nl
     @ nl
     @ ''DETAILED ANALYSIS REPORT:''"

definition DocumentAnalyzerTool_run :: "generator \<Rightarrow> string \<Rightarrow> string eff" where
  "DocumentAnalyzerTool_run gen text =
     (let prompt = analysis_prompt text
      in case gen prompt of
           Inr response_text \<Rightarrow>
             (Inr (emoji_mag @ '' ANALYSIS RESULTS:'' @ nl @ response_text), [prompt])
         | Inl e \<Rightarrow> (Inr (''Error analyzing content: '' @ str e), [prompt]))"

section \<open>The local text transforms (agents.py)\<close>

definition formatter_head :: string where
  "formatter_head = emoji_sparkles @ '' PROFESSIONALLY FORMATTED RESPONSE:'' @ nl @ nl"

definition formatter_tail :: string where
  "formatter_tail = nl @ nl @ emoji_target @ '' FORMATTING FEATURES APPLIED:'' @ nl
     @ ''- Clear hierarchical structure with sections'' @ nl
     @ ''- Professional typography and spacing'' @ nl
     @ ''- Consistent formatting throughout'' @ nl
     @ ''- Enhanced readability with bullet points'' @ nl
     @ ''- Professional presentation standards'' @ nl
     @ ''- Optimized for both technical and non-technical audiences''"

definition ContentFormatterTool_run :: "string \<Rightarrow> string eff" where
  "ContentFormatterTool_run content =
     (if content = [] \<or> py_in ''Error'' content then (Inr content, [])
      else (Inr (formatter_head @ content @ formatter_tail), []))"

definition citation_head :: string where
  "citation_head = emoji_check @ '' CITATION MANAGEMENT APPLIED:'' @ nl @ nl"

definition citation_tail :: string where
  "citation_tail = nl @ nl @ emoji_books @ '' SOURCES ATTRIBUTED:'' @ nl
     @ ''- All document references properly cited'' @ nl
     @ ''- Source files clearly referenced'' @ nl
     @ ''- Academic citation standards applied'' @ nl
     @ ''- Cross-references maintained for verification''"

definition CitationManagerTool_run :: "string \<Rightarrow> string eff" where
  "CitationManagerTool_run content =
     (if content = [] \<or> py_in ''Error'' content then (Inr content, [])
      else (Inr (citation_head @ content @ citation_tail), []))"

section \<open>The agent nodes (agents.py)\<close>

text \<open>
  A tool is its \<open>run\<close> method. The state's \<open>tools\<close> entry is a dictionary from tool names
  to tools, so a tool may be missing. \<open>AgentState\<close> is a \<open>TypedDict\<close> whose keys are all
  required: it is a record. A node returns the new state and the prompts sent to the
  generation collaborator while it ran.
\<close>

type_synonym tool = "string \<Rightarrow> string eff"

record AgentState =
  query :: string
  retrieved_documents :: string
  summarized_content :: string
  analysis_results :: string
  final_output :: string
  current_step :: string
  error :: string
  tools :: "string \<rightharpoonup> tool"

definition retriever_agent :: "AgentState \<Rightarrow> AgentState \<times> string list" where
  "retriever_agent state =
     (case tools state ''retriever'' of
        Some retriever_tool \<Rightarrow>
          eff_catch
            (eff_bind (retriever_tool (query state)) (\<lambda>retrieved_content.
               eff_return (state\<lparr>retrieved_documents := retrieved_content,
                                  current_step := ''retrieval_complete''\<rparr>)))
            (\<lambda>e. state\<lparr>retrieved_documents := ''Error in retrieval: '' @ str e,
                        current_step := ''retrieval_complete''\<rparr>)
      | None \<Rightarrow>
          (state\<lparr>retrieved_documents := ''Retriever tool not available'',
                  current_step := ''retrieval_complete''\<rparr>, []))"

definition summarizer_agent :: "AgentState \<Rightarrow> AgentState \<times> string list" where
  "summarizer_agent state =
     (case tools state ''summarizer'' of
        Some summarizer_tool \<Rightarrow>
          if retrieved_documents state \<noteq> [] then
            eff_catch
              (eff_bind
                 (if \<not> py_in ''Error'' (retrieved_documents state)
                     \<and> \<not> py_in ''No relevant documents'' (retrieved_documents state)
                  then summarizer_tool (retrieved_documents state)
                  else eff_return (retrieved_documents state))
                 (\<lambda>summarized. eff_return (state\<lparr>summarized_content := summarized,
                                  current_step := ''summarization_complete''\<rparr>)))
              (\<lambda>e. state\<lparr>summarized_content := ''Error in summarization: '' @ str e,
                          current_step := ''summarization_complete''\<rparr>)
          else
            (state\<lparr>summarized_content := ''Summarizer tool not available'',
                    current_step := ''summarization_complete''\<rparr>, [])
      | None \<Rightarrow>
          (state\<lparr>summarized_content := ''Summarizer tool not available'',
                  current_step := ''summarization_complete''\<rparr>, []))"

definition analyst_agent :: "AgentState \<Rightarrow> AgentState \<times> string list" where
  "analyst_agent state =
     (case tools state ''analyzer'' of
        Some analyzer_tool \<Rightarrow>
          if summarized_content state \<noteq> [] then
            eff_catch
              (eff_bind
                 (if \<not> py_in ''Error'' (summarized_content state)
                     \<and> \<not> py_in ''No relevant documents'' (summarized_content state)
                  then analyzer_tool (summarized_content state)
                  else eff_return (summarized_content state))
                 (\<lambda>analysis. eff_return (state\<lparr>analysis_results := analysis,
                                  current_step := ''analysis_complete''\<rparr>)))
              (\<lambda>e. state\<lparr>analysis_results := ''Error in analysis: '' @ str e,
                          current_step := ''analysis_complete''\<rparr>)
          else
            (state\<lparr>analysis_results := ''Analyzer tool not available'',
                    current_step := ''analysis_complete''\<rparr>, [])
      | None \<Rightarrow>
          (state\<lparr>analysis_results := ''Analyzer tool not available'',
                  current_step := ''analysis_complete''\<rparr>, []))"

definition py_or :: "string \<Rightarrow> string \<Rightarrow> string" where
  \<comment> \<open>\<open>a or b\<close> on strings: \<open>a\<close> unless it is empty\<close>
  "py_or a b = (if a \<noteq> [] then a else b)"

definition content_to_format :: "AgentState \<Rightarrow> string" where
  "content_to_format state =
     py_or (analysis_results state)
       (py_or (summarized_content state) (retrieved_documents state))"

definition quality_agent :: "AgentState \<Rightarrow> AgentState \<times> string list" where
  "quality_agent state =
     eff_catch
       (eff_bind
          (case tools state ''formatter'' of
             Some formatter_tool \<Rightarrow>
               if content_to_format state \<noteq> []
                  \<and> \<not> py_in ''Error'' (content_to_format state)
                  \<and> \<not> py_in ''No relevant documents'' (content_to_format state)
               then
                 eff_bind (formatter_tool (content_to_format state)) (\<lambda>formatted_content.
                   case tools state ''citations'' of
                     Some citation_tool \<Rightarrow> citation_tool formatted_content
                   | None \<Rightarrow> eff_return formatted_content)
               else eff_return (content_to_format state)
           | None \<Rightarrow> eff_return (content_to_format state))
          (\<lambda>final. eff_return (state\<lparr>final_output := final, current_step := ''complete''\<rparr>)))
       (\<lambda>e. state\<lparr>final_output := ''Error in quality assurance: '' @ str e,
                   current_step := ''complete''\<rparr>)"

section \<open>The two executors (agents.py)\<close>

definition make_tools :: "(string \<Rightarrow> string) \<Rightarrow> generator \<Rightarrow> retriever_obj \<Rightarrow> (string \<rightharpoonup> tool)" where
  \<comment> \<open>the \<open>tools\<close> dictionary that both constructors build\<close>
  "make_tools str_upper gen r =
     [''retriever'' \<mapsto> DocumentRetrieverTool_run str_upper r,
      ''summarizer'' \<mapsto> ContentSummarizerTool_run gen,
      ''analyzer'' \<mapsto> DocumentAnalyzerTool_run gen,
      ''formatter'' \<mapsto> ContentFormatterTool_run,
      ''citations'' \<mapsto> CitationManagerTool_run]"

datatype node = Retriever_node | Summarizer_node | Analyst_node | Quality_assurance_node | END

fun workflow_node :: "node \<Rightarrow> AgentState \<Rightarrow> AgentState \<times> string list" where
  "workflow_node Retriever_node = retriever_agent"
| "workflow_node Summarizer_node = summarizer_agent"
| "workflow_node Analyst_node = analyst_agent"
| "workflow_node Quality_assurance_node = quality_agent"
| "workflow_node END = (\<lambda>s. (s, []))"

fun workflow_edge :: "node \<Rightarrow> node" where
  "workflow_edge Retriever_node = Summarizer_node"
| "workflow_edge Summarizer_node = Analyst_node"
| "workflow_edge Analyst_node = Quality_assurance_node"
| "workflow_edge Quality_assurance_node = END"
| "workflow_edge END = END"

fun steps_to_end :: "node \<Rightarrow> nat" where
  "steps_to_end Retriever_node = 4"
| "steps_to_end Summarizer_node = 3"
| "steps_to_end Analyst_node = 2"
| "steps_to_end Quality_assurance_node = 1"
| "steps_to_end END = 0"

function graph_run :: "node \<Rightarrow> AgentState \<Rightarrow> AgentState \<times> string list" where
  \<comment> \<open>run the node, take the state it returns, follow the edge; stop at \<open>END\<close>\<close>
  "graph_run n s =
     (if n = END then (s, [])
      else (case workflow_node n s of
              (s', l) \<Rightarrow> (case graph_run (workflow_edge n) s' of (s'', l') \<Rightarrow> (s'', l @ l'))))"
  by pat_completeness auto
termination
proof (relation "measure (\<lambda>(n, s). steps_to_end n)")
  show "wf (measure (\<lambda>(n, s). steps_to_end n))"
    by simp
next
  fix n :: node and s x :: AgentState and y :: "string list"
  assume "n \<noteq> END"
  then show "((workflow_edge n, x), n, s) \<in> measure (\<lambda>(n, s). steps_to_end n)"
    by (cases n) simp_all
qed

definition graph_invoke :: "AgentState \<Rightarrow> AgentState \<times> string list" where
  \<comment> \<open>the compiled workflow, entered at \<open>retriever\<close>\<close>
  "graph_invoke s = graph_run Retriever_node s"

definition LangGraphMultiAgent_kickoff ::
  "(string \<rightharpoonup> tool) \<Rightarrow> (string \<rightharpoonup> string) \<Rightarrow> string \<times> string list" where
  "LangGraphMultiAgent_kickoff self_tools inputs =
     (let initial_state =
        \<lparr>query = dict_get inputs ''query'' [],
         retrieved_documents = [],
         summarized_content = [],
         analysis_results = [],
         final_output = [],
         current_step = ''started'',
         error = [],
         tools = self_tools\<rparr>
      in case graph_invoke initial_state of
           (final_state, l) \<Rightarrow> (final_output final_state, l))"

definition call_tool :: "(string \<rightharpoonup> tool) \<Rightarrow> string \<Rightarrow> string \<Rightarrow> string eff" where
  \<comment> \<open>\<open>self.tools[name].run(arg)\<close>\<close>
  "call_tool self_tools name arg = eff_bind (dict_index self_tools name) (\<lambda>t. t arg)"

definition SimpleMultiAgent_kickoff ::
  "(string \<rightharpoonup> tool) \<Rightarrow> (string \<rightharpoonup> string) \<Rightarrow> string \<times> string list" where
  "SimpleMultiAgent_kickoff self_tools inputs =
     eff_catch
       (eff_bind (call_tool self_tools ''retriever'' (dict_get inputs ''query'' [])) (\<lambda>retrieved.
          if py_in ''Error'' retrieved \<or> py_in ''No relevant documents'' retrieved
          then eff_return retrieved
          else
            eff_bind (call_tool self_tools ''summarizer'' retrieved) (\<lambda>summarized.
            eff_bind (call_tool self_tools ''analyzer'' summarized) (\<lambda>analyzed.
            eff_bind (call_tool self_tools ''formatter'' analyzed) (\<lambda>formatted.
            eff_bind (call_tool self_tools ''citations'' formatted) (\<lambda>final.
            eff_return final))))))
       (\<lambda>e. ''Error in simple workflow: '' @ str e)"




section \<open>The multi-document coordinator (chat.py)\<close>











section \<open>The agent nodes on dictionary objects (agents.py)\<close>

text \<open>
  The state a node receives is a reference to a dictionary object. The store is the list
  of the dictionary objects allocated so far and a reference is a position in it. What
  Python does with a dictionary through a reference is modelled by three operations:
  reading (\<open>state.get(k)\<close>, \<open>state[k]\<close>), building a new dictionary (the display
  \<open>{**state, k: v}\<close>, which copies the entries of \<open>state\<close> into a new object) and
  assigning into an existing one (\<open>state[k] = v\<close>, which changes the object that every
  holder of the reference sees). Each node is translated again, statement by statement,
  over these operations; a tool is called with a string and gets no reference.
\<close>

definition py_read :: "AgentState list \<Rightarrow> nat \<Rightarrow> AgentState" where
  \<comment> \<open>the dictionary a reference to an allocated object denotes\<close>
  "py_read store ref = store ! ref"

definition py_new_dict :: "AgentState list \<Rightarrow> AgentState \<Rightarrow> AgentState list \<times> nat" where
  \<comment> \<open>a dict display: the new object goes to the next free address, which is returned\<close>
  "py_new_dict store d = (store @ [d], length store)"

definition py_setitem ::
  "AgentState list \<Rightarrow> nat \<Rightarrow> (AgentState \<Rightarrow> AgentState) \<Rightarrow> AgentState list" where
  \<comment> \<open>\<open>state[k] = v\<close>: the object at the address is replaced by its update\<close>
  "py_setitem store ref upd = store[ref := upd (store ! ref)]"

definition retriever_agent_ref ::
  "AgentState list \<Rightarrow> nat \<Rightarrow> (AgentState list \<times> nat) \<times> string list" where
  "retriever_agent_ref store state =
     (case tools (py_read store state) ''retriever'' of
        Some retriever_tool \<Rightarrow>
          (case retriever_tool (query (py_read store state)) of
             (Inr retrieved_content, l) \<Rightarrow>
               (py_new_dict store
                  ((py_read store state)\<lparr>retrieved_documents := retrieved_content,
                      current_step := ''retrieval_complete''\<rparr>), l)
           | (Inl e, l) \<Rightarrow>
               (py_new_dict store
                  ((py_read store state)\<lparr>retrieved_documents := ''Error in retrieval: '' @ str e,
                      current_step := ''retrieval_complete''\<rparr>), l))
      | None \<Rightarrow>
          (py_new_dict store
             ((py_read store state)\<lparr>retrieved_documents := ''Retriever tool not available'',
                 current_step := ''retrieval_complete''\<rparr>), []))"

definition summarizer_agent_ref ::
  "AgentState list \<Rightarrow> nat \<Rightarrow> (AgentState list \<times> nat) \<times> string list" where
  "summarizer_agent_ref store state =
     (case tools (py_read store state) ''summarizer'' of
        Some summarizer_tool \<Rightarrow>
          if retrieved_documents (py_read store state) \<noteq> [] then
            (case (if \<not> py_in ''Error'' (retrieved_documents (py_read store state))
                     \<and> \<not> py_in ''No relevant documents''
                           (retrieved_documents (py_read store state))
                  then summarizer_tool (retrieved_documents (py_read store state))
                  else (Inr (retrieved_documents (py_read store state)), [])) of
               (Inr summarized, l) \<Rightarrow>
                 (py_new_dict store
                    ((py_read store state)\<lparr>summarized_content := summarized,
                        current_step := ''summarization_complete''\<rparr>), l)
             | (Inl e, l) \<Rightarrow>
                 (py_new_dict store
                    ((py_read store state)\<lparr>summarized_content :=
                          ''Error in summarization: '' @ str e,
                        current_step := ''summarization_complete''\<rparr>), l))
          else
            (py_new_dict store
               ((py_read store state)\<lparr>summarized_content := ''Summarizer tool not available'',
                   current_step := ''summarization_complete''\<rparr>), [])
      | None \<Rightarrow>
          (py_new_dict store
             ((py_read store state)\<lparr>summarized_content := ''Summarizer tool not available'',
                 current_step := ''summarization_complete''\<rparr>), []))"

definition analyst_agent_ref ::
  "AgentState list \<Rightarrow> nat \<Rightarrow> (AgentState list \<times> nat) \<times> string list" where
  "analyst_agent_ref store state =
     (case tools (py_read store state) ''analyzer'' of
        Some analyzer_tool \<Rightarrow>
          if summarized_content (py_read store state) \<noteq> [] then
            (case (if \<not> py_in ''Error'' (summarized_content (py_read store state))
                     \<and> \<not> py_in ''No relevant documents''
                           (summarized_content (py_read store state))
                  then analyzer_tool (summarized_content (py_read store state))
                  else (Inr (summarized_content (py_read store state)), [])) of
               (Inr analysis, l) \<Rightarrow>
                 (py_new_dict store
                    ((py_read store state)\<lparr>analysis_results := analysis,
                        current_step := ''analysis_complete''\<rparr>), l)
             | (Inl e, l) \<Rightarrow>
                 (py_new_dict store
                    ((py_read store state)\<lparr>analysis_results := ''Error in analysis: '' @ str e,
                        current_step := ''analysis_complete''\<rparr>), l))
          else
            (py_new_dict store
               ((py_read store state)\<lparr>analysis_results := ''Analyzer tool not available'',
                   current_step := ''analysis_complete''\<rparr>), [])
      | None \<Rightarrow>
          (py_new_dict store
             ((py_read store state)\<lparr>analysis_results := ''Analyzer tool not available'',
                 current_step := ''analysis_complete''\<rparr>), []))"

definition quality_agent_ref ::
  "AgentState list \<Rightarrow> nat \<Rightarrow> (AgentState list \<times> nat) \<times> string list" where
  "quality_agent_ref store state =
     (case (case tools (py_read store state) ''formatter'' of
              Some formatter_tool \<Rightarrow>
                if content_to_format (py_read store state) \<noteq> []
                   \<and> \<not> py_in ''Error'' (content_to_format (py_read store state))
                   \<and> \<not> py_in ''No relevant documents'' (content_to_format (py_read store state))
                then
                  eff_bind (formatter_tool (content_to_format (py_read store state)))
                    (\<lambda>formatted_content.
                       case tools (py_read store state) ''citations'' of
                         Some citation_tool \<Rightarrow> citation_tool formatted_content
                       | None \<Rightarrow> (Inr formatted_content, []))
                else (Inr (content_to_format (py_read store state)), [])
            | None \<Rightarrow> (Inr (content_to_format (py_read store state)), [])) of
        (Inr final, l) \<Rightarrow>
          (py_new_dict store
             ((py_read store state)\<lparr>final_output := final, current_step := ''complete''\<rparr>), l)
      | (Inl e, l) \<Rightarrow>
          (py_new_dict store
             ((py_read store state)\<lparr>final_output := ''Error in quality assurance: '' @ str e,
                 current_step := ''complete''\<rparr>), l))"

section \<open>Example collaborators\<close>

definition doc_bio :: document where
  "doc_bio =
     \<lparr>page_content = ''Photosynthesis converts light to chemical energy.'',
      metadata = [''source_file'' \<mapsto> ''bio.txt'', ''file_format'' \<mapsto> ''txt'']\<rparr>"



definition retriever_nothing :: retriever_obj where
  \<comment> \<open>a retriever that finds no document\<close>
  "retriever_nothing =
     \<lparr>get_relevant_documents = None, invoke = Some (\<lambda>q. Inr []), call = None\<rparr>"


definition gen_ok :: generator where
  "gen_ok prompt = Inr ''ok''"

definition gen_quota :: generator where
  \<comment> \<open>every generation call fails\<close>
  "gen_quota prompt = Inl (Exception ''quota exceeded'')"

definition gen_summary_fails :: generator where
  \<comment> \<open>the summarizer's call fails, every other call succeeds\<close>
  "gen_summary_fails prompt =
     (if prefix ''As an expert content summarizer'' prompt
      then Inl (Exception ''quota exceeded'') else Inr ''ok'')"

definition state_no_documents :: AgentState where
  \<comment> \<open>a state in which every stage so far relayed the empty-result marker\<close>
  "state_no_documents =
     \<lparr>query = ''xyzzy123nonsense'',
      retrieved_documents = empty_result_marker,
      summarized_content = empty_result_marker,
      analysis_results = empty_result_marker,
      final_output = [],
      current_step = ''analysis_complete'',
      error = [],
      tools = make_tools ascii_upper gen_ok retriever_nothing\<rparr>"

definition state_all_empty :: AgentState where
  \<comment> \<open>a state in which no stage produced anything\<close>
  "state_all_empty =
     \<lparr>query = ''q'',
      retrieved_documents = [],
      summarized_content = [],
      analysis_results = [],
      final_output = [],
      current_step = ''started'',
      error = [],
      tools = make_tools ascii_upper gen_ok retriever_nothing\<rparr>"

definition retriever_both :: retriever_obj where
  \<comment> \<open>two capabilities that can be told apart\<close>
  "retriever_both =
     \<lparr>get_relevant_documents = Some (\<lambda>q. Inl (Exception ''first'')),
      invoke = Some (\<lambda>q. Inl (Exception ''second'')), call = None\<rparr>"

definition retriever_callable :: retriever_obj where
  \<comment> \<open>a plain callable\<close>
  "retriever_callable =
     \<lparr>get_relevant_documents = None, invoke = None, call = Some (\<lambda>q. Inr [])\<rparr>"

definition retriever_incompatible :: retriever_obj where
  \<comment> \<open>an object with none of the three capabilities\<close>
  "retriever_incompatible = \<lparr>get_relevant_documents = None, invoke = None, call = None\<rparr>"

definition state_analysed :: AgentState where
  \<comment> \<open>a state in which every stage produced something\<close>
  "state_analysed =
     \<lparr>query = ''q'',
      retrieved_documents = ''raw'',
      summarized_content = ''short'',
      analysis_results = ''deep'',
      final_output = [],
      current_step = ''analysis_complete'',
      error = [],
      tools = make_tools ascii_upper gen_ok retriever_nothing\<rparr>"

definition retriever_one :: retriever_obj where
  \<comment> \<open>a retriever that finds one document\<close>
  "retriever_one =
     \<lparr>get_relevant_documents = Some (\<lambda>q. Inr [doc_bio]), invoke = None, call = None\<rparr>"


section \<open>Properties\<close>

subsection \<open>Substring search\<close>

lemma py_in_mid: "py_in c (p @ c @ s)"
  by (simp add: py_in_def)

lemma py_in_prefix: "py_in p (p @ s)"
  by (simp add: py_in_def)

lemma py_in_suffix: "py_in s (p @ s)"
  by (simp add: py_in_def)

subsection \<open>Sentinel forwarding\<close>

lemma marker_nonempty: "empty_result_marker \<noteq> []"
  by (simp add: empty_result_marker_def)

lemma marker_no_relevant: "py_in ''No relevant documents'' empty_result_marker"
  unfolding empty_result_marker_def py_in_def
  by (simp add: sublist_code prefix_code)

lemma py_in_nonempty: "py_in (a # as) c \<Longrightarrow> c \<noteq> []"
  by (auto simp: py_in_def)

lemma summarizer_agent_relay:
  "tools s ''summarizer'' = Some t \<Longrightarrow>
   py_in ''Error'' (retrieved_documents s)
     \<or> py_in ''No relevant documents'' (retrieved_documents s) \<Longrightarrow>
   summarizer_agent s =
     (s\<lparr>summarized_content := retrieved_documents s,
        current_step := ''summarization_complete''\<rparr>, [])"
  by (auto simp: summarizer_agent_def eff_catch_def eff_bind_def eff_return_def
      dest: py_in_nonempty)

lemma analyst_agent_relay:
  "tools s ''analyzer'' = Some t \<Longrightarrow>
   py_in ''Error'' (summarized_content s)
     \<or> py_in ''No relevant documents'' (summarized_content s) \<Longrightarrow>
   analyst_agent s =
     (s\<lparr>analysis_results := summarized_content s,
        current_step := ''analysis_complete''\<rparr>, [])"
  by (auto simp: analyst_agent_def eff_catch_def eff_bind_def eff_return_def
      dest: py_in_nonempty)

lemma quality_agent_relay:
  "content_to_format s = [] \<or> py_in ''Error'' (content_to_format s)
     \<or> py_in ''No relevant documents'' (content_to_format s) \<Longrightarrow>
   quality_agent s =
     (s\<lparr>final_output := content_to_format s, current_step := ''complete''\<rparr>, [])"
  by (auto simp: quality_agent_def eff_catch_def eff_bind_def eff_return_def
      split: option.splits)

lemma content_to_format_cases:
  "content_to_format s =
     (if analysis_results s \<noteq> [] then analysis_results s
      else if summarized_content s \<noteq> [] then summarized_content s
      else retrieved_documents s)"
  by (simp add: content_to_format_def py_or_def)

text \<open>
  C1, as amended. The summarizer and analyst stages, when their tool is there, copy an
  input that is the empty-result marker or contains \<open>Error\<close> to their output field
  unchanged, calling nothing; the quality stage makes such content the final output
  unchanged, calling neither formatter nor citation manager. The formatter and the
  citation manager themselves return every input that contains \<open>Error\<close> unchanged.
\<close>

theorem C1_sentinel_relay:
  "(py_in ''Error'' c \<longrightarrow>
      ContentFormatterTool_run c = (Inr c, []) \<and> CitationManagerTool_run c = (Inr c, []))
   \<and> (tools s ''summarizer'' = Some t \<and>
        (retrieved_documents s = empty_result_marker \<or> py_in ''Error'' (retrieved_documents s))
      \<longrightarrow> summarizer_agent s =
            (s\<lparr>summarized_content := retrieved_documents s,
               current_step := ''summarization_complete''\<rparr>, []))
   \<and> (tools s ''analyzer'' = Some t' \<and>
        (summarized_content s = empty_result_marker \<or> py_in ''Error'' (summarized_content s))
      \<longrightarrow> analyst_agent s =
            (s\<lparr>analysis_results := summarized_content s,
               current_step := ''analysis_complete''\<rparr>, []))
   \<and> (content_to_format s = empty_result_marker \<or> py_in ''Error'' (content_to_format s)
      \<longrightarrow> quality_agent s =
            (s\<lparr>final_output := content_to_format s, current_step := ''complete''\<rparr>, []))"
proof -
  have fmt: "py_in ''Error'' c \<longrightarrow>
      ContentFormatterTool_run c = (Inr c, []) \<and> CitationManagerTool_run c = (Inr c, [])"
    by (simp add: ContentFormatterTool_run_def CitationManagerTool_run_def)
  have q: "content_to_format s = empty_result_marker \<or> py_in ''Error'' (content_to_format s)
      \<longrightarrow> quality_agent s =
            (s\<lparr>final_output := content_to_format s, current_step := ''complete''\<rparr>, [])"
    using quality_agent_relay [of s] marker_no_relevant by auto
  have s: "tools s ''summarizer'' = Some t \<and>
        (retrieved_documents s = empty_result_marker \<or> py_in ''Error'' (retrieved_documents s))
      \<longrightarrow> summarizer_agent s =
            (s\<lparr>summarized_content := retrieved_documents s,
               current_step := ''summarization_complete''\<rparr>, [])"
    using summarizer_agent_relay [of s t] marker_no_relevant by auto
  have a: "tools s ''analyzer'' = Some t' \<and>
        (summarized_content s = empty_result_marker \<or> py_in ''Error'' (summarized_content s))
      \<longrightarrow> analyst_agent s =
            (s\<lparr>analysis_results := summarized_content s,
               current_step := ''analysis_complete''\<rparr>, [])"
    using analyst_agent_relay [of s t'] marker_no_relevant by auto
  show ?thesis
    using fmt q s a by blast
qed

text \<open>
  C1 as stated fails for the formatter and the citation manager: given the empty-result
  marker itself, which does not contain \<open>Error\<close>, each wraps it like any other text.
\<close>

theorem C1_marker_counterexample:
  "ContentFormatterTool_run empty_result_marker \<noteq> (Inr empty_result_marker, [])
   \<and> CitationManagerTool_run empty_result_marker \<noteq> (Inr empty_result_marker, [])"
  by (simp add: ContentFormatterTool_run_def CitationManagerTool_run_def
      empty_result_marker_def py_in_def sublist_code prefix_code formatter_head_def
      citation_head_def)

theorem C1_sentinel_relay_witness:
  "ContentFormatterTool_run ''Error: x'' = (Inr ''Error: x'', [])
   \<and> CitationManagerTool_run ''Error: x'' = (Inr ''Error: x'', [])
   \<and> summarizer_agent state_no_documents =
       (state_no_documents\<lparr>summarized_content := empty_result_marker,
          current_step := ''summarization_complete''\<rparr>, [])
   \<and> analyst_agent state_no_documents =
       (state_no_documents\<lparr>analysis_results := empty_result_marker,
          current_step := ''analysis_complete''\<rparr>, [])
   \<and> quality_agent state_no_documents =
       (state_no_documents\<lparr>final_output := empty_result_marker,
          current_step := ''complete''\<rparr>, [])"
  using C1_sentinel_relay [of "''Error: x''" state_no_documents
      "ContentSummarizerTool_run gen_ok" "DocumentAnalyzerTool_run gen_ok"]
  by (simp add: state_no_documents_def make_tools_def content_to_format_def py_or_def
      py_in_def sublist_code prefix_code empty_result_marker_def)

subsection \<open>Content preservation\<close>

text \<open>
  C10. For every non-empty input \<open>c\<close> without the token \<open>Error\<close>, the formatter and the
  citation manager each return (never raise) a string that contains \<open>c\<close> as a contiguous
  substring; and on every input whatsoever both return a value and call no collaborator.
\<close>

theorem C10_content_preserved:
  "(c \<noteq> [] \<and> \<not> py_in ''Error'' c \<longrightarrow>
      (\<exists>out. ContentFormatterTool_run c = (Inr out, []) \<and> py_in c out) \<and>
      (\<exists>out. CitationManagerTool_run c = (Inr out, []) \<and> py_in c out))
   \<and> (\<exists>out. ContentFormatterTool_run x = (Inr out, []))
   \<and> (\<exists>out. CitationManagerTool_run x = (Inr out, []))"
  by (simp add: ContentFormatterTool_run_def CitationManagerTool_run_def py_in_mid)

theorem C10_content_preserved_witness:
  "ContentFormatterTool_run ''abc'' = (Inr (formatter_head @ ''abc'' @ formatter_tail), [])
   \<and> py_in ''abc'' (formatter_head @ ''abc'' @ formatter_tail)
   \<and> CitationManagerTool_run ''abc'' = (Inr (citation_head @ ''abc'' @ citation_tail), [])"
  using C10_content_preserved [of "''abc''" "''abc''"]
  by (simp add: ContentFormatterTool_run_def CitationManagerTool_run_def py_in_def
      sublist_code prefix_code py_in_mid)

subsection \<open>Generation failures\<close>

text \<open>
  C4. When the generation collaborator raises inside the summarizer or the analyzer, the
  stage returns (does not raise) an error marker: a string that contains \<open>Error\<close> and the
  failure's reason. On every input and for every collaborator, both stages return a
  value.
\<close>

theorem C4_generation_failure_converted:
  "(gen (summary_prompt text) = Inl e \<longrightarrow>
      ContentSummarizerTool_run gen text =
        (Inr (''Error generating summary: '' @ str e), [summary_prompt text])
      \<and> py_in ''Error'' (''Error generating summary: '' @ str e)
      \<and> py_in (str e) (''Error generating summary: '' @ str e))
   \<and> (gen (analysis_prompt text) = Inl e \<longrightarrow>
      DocumentAnalyzerTool_run gen text =
        (Inr (''Error analyzing content: '' @ str e), [analysis_prompt text])
      \<and> py_in ''Error'' (''Error analyzing content: '' @ str e)
      \<and> py_in (str e) (''Error analyzing content: '' @ str e))
   \<and> (\<exists>out l. ContentSummarizerTool_run gen text = (Inr out, l))
   \<and> (\<exists>out l. DocumentAnalyzerTool_run gen text = (Inr out, l))"
proof -
  have e1: "py_in ''Error'' (''Error generating summary: '' @ str e)"
    using py_in_prefix [of "''Error''" "'' generating summary: '' @ str e"] by simp
  have e2: "py_in ''Error'' (''Error analyzing content: '' @ str e)"
    using py_in_prefix [of "''Error''" "'' analyzing content: '' @ str e"] by simp
  have s1: "gen (summary_prompt text) = Inl e \<longrightarrow>
      ContentSummarizerTool_run gen text =
        (Inr (''Error generating summary: '' @ str e), [summary_prompt text])"
    by (simp add: ContentSummarizerTool_run_def Let_def)
  have s2: "gen (analysis_prompt text) = Inl e \<longrightarrow>
      DocumentAnalyzerTool_run gen text =
        (Inr (''Error analyzing content: '' @ str e), [analysis_prompt text])"
    by (simp add: DocumentAnalyzerTool_run_def Let_def)
  have t1: "\<exists>out l. ContentSummarizerTool_run gen text = (Inr out, l)"
    by (simp add: ContentSummarizerTool_run_def Let_def split: sum.splits)
  have t2: "\<exists>out l. DocumentAnalyzerTool_run gen text = (Inr out, l)"
    by (simp add: DocumentAnalyzerTool_run_def Let_def split: sum.splits)
  show ?thesis
    using e1 e2 s1 s2 t1 t2 py_in_suffix [of "str e" "''Error generating summary: ''"]
      py_in_suffix [of "str e" "''Error analyzing content: ''"]
    by blast
qed

theorem C4_generation_failure_converted_witness:
  "ContentSummarizerTool_run gen_quota ''abc'' =
     (Inr ''Error generating summary: quota exceeded'', [summary_prompt ''abc''])
   \<and> DocumentAnalyzerTool_run gen_quota ''abc'' =
     (Inr ''Error analyzing content: quota exceeded'', [analysis_prompt ''abc''])
   \<and> py_in ''quota exceeded'' ''Error generating summary: quota exceeded''"
  using C4_generation_failure_converted [of gen_quota "''abc''" "Exception ''quota exceeded''"]
  by (simp add: gen_quota_def)

subsection \<open>The retrieval adapter\<close>

text \<open>
  C6. The adapter uses \<open>get_relevant_documents\<close> if the retriever has it, otherwise \<open>invoke\<close>
  if it has that, otherwise the retriever as a callable; with none of the three it
  returns the unsupported-capability error marker. In every case it returns a value.
\<close>

theorem C6_capability_priority:
  "(get_relevant_documents r = Some f \<longrightarrow>
      DocumentRetrieverTool_run str_upper r q = (Inr (retrieval_result str_upper (f q)), []))
   \<and> (get_relevant_documents r = None \<and> invoke r = Some g \<longrightarrow>
      DocumentRetrieverTool_run str_upper r q = (Inr (retrieval_result str_upper (g q)), []))
   \<and> (get_relevant_documents r = None \<and> invoke r = None \<and> call r = Some h \<longrightarrow>
      DocumentRetrieverTool_run str_upper r q = (Inr (retrieval_result str_upper (h q)), []))
   \<and> (get_relevant_documents r = None \<and> invoke r = None \<and> call r = None \<longrightarrow>
      DocumentRetrieverTool_run str_upper r q = (Inr unsupported_marker, []))
   \<and> py_in ''Error'' unsupported_marker
   \<and> (\<exists>out. DocumentRetrieverTool_run str_upper r q = (Inr out, []))"
proof -
  have "py_in ''Error'' unsupported_marker"
    unfolding unsupported_marker_def py_in_def by (simp add: sublist_code prefix_code)
  then show ?thesis
    by (simp add: DocumentRetrieverTool_run_def probe_def split: option.splits)
qed

theorem C6_capability_priority_witness:
  "DocumentRetrieverTool_run ascii_upper retriever_both ''q'' =
     (Inr ''Error retrieving documents: first'', [])
   \<and> DocumentRetrieverTool_run ascii_upper retriever_nothing ''q'' = (Inr empty_result_marker, [])
   \<and> DocumentRetrieverTool_run ascii_upper retriever_callable ''q'' = (Inr empty_result_marker, [])
   \<and> DocumentRetrieverTool_run ascii_upper retriever_incompatible ''q'' = (Inr unsupported_marker, [])"
  using
    C6_capability_priority [where r = retriever_both and f = "\<lambda>q. Inl (Exception ''first'')"
      and q = "''q''" and str_upper = ascii_upper]
    C6_capability_priority [where r = retriever_nothing and g = "\<lambda>q. Inr []"
      and q = "''q''" and str_upper = ascii_upper]
    C6_capability_priority [where r = retriever_callable and h = "\<lambda>q. Inr []"
      and q = "''q''" and str_upper = ascii_upper]
    C6_capability_priority [where r = retriever_incompatible
      and q = "''q''" and str_upper = ascii_upper]
  by (simp add: retriever_both_def retriever_nothing_def retriever_callable_def
      retriever_incompatible_def retrieval_result_def)

subsection \<open>Source attribution\<close>



lemma py_in_append_right: "py_in a b \<Longrightarrow> py_in a (b @ c)"
  by (simp add: py_in_def sublist_append)




subsection \<open>The executors on a sentinel from retrieval\<close>

lemma graph_invoke_unfold:
  "graph_invoke s =
     (case retriever_agent s of (s1, l1) \<Rightarrow>
      case summarizer_agent s1 of (s2, l2) \<Rightarrow>
      case analyst_agent s2 of (s3, l3) \<Rightarrow>
      case quality_agent s3 of (s4, l4) \<Rightarrow> (s4, l1 @ l2 @ l3 @ l4))"
proof -
  have e: "graph_run END x = (x, [])" for x
    by simp
  have q: "graph_run Quality_assurance_node x =
      (case quality_agent x of (s4, l4) \<Rightarrow> (s4, l4))" for x
    by (subst graph_run.simps) (simp add: e split: prod.splits)
  have a: "graph_run Analyst_node x =
      (case analyst_agent x of (s3, l3) \<Rightarrow>
       case quality_agent s3 of (s4, l4) \<Rightarrow> (s4, l3 @ l4))" for x
    by (subst graph_run.simps) (simp add: q split: prod.splits)
  have su: "graph_run Summarizer_node x =
      (case summarizer_agent x of (s2, l2) \<Rightarrow>
       case analyst_agent s2 of (s3, l3) \<Rightarrow>
       case quality_agent s3 of (s4, l4) \<Rightarrow> (s4, l2 @ l3 @ l4))" for x
    by (subst graph_run.simps) (simp add: a split: prod.splits)
  show ?thesis
    unfolding graph_invoke_def
    by (subst graph_run.simps) (simp add: su split: prod.splits)
qed

lemma make_tools_lookup:
  "make_tools str_upper gen r ''retriever'' = Some (DocumentRetrieverTool_run str_upper r)"
  "make_tools str_upper gen r ''summarizer'' = Some (ContentSummarizerTool_run gen)"
  "make_tools str_upper gen r ''analyzer'' = Some (DocumentAnalyzerTool_run gen)"
  "make_tools str_upper gen r ''formatter'' = Some ContentFormatterTool_run"
  "make_tools str_upper gen r ''citations'' = Some CitationManagerTool_run"
  by (simp_all add: make_tools_def)

lemma retriever_returns:
  "\<exists>out. DocumentRetrieverTool_run str_upper r q = (Inr out, [])"
  by (simp add: DocumentRetrieverTool_run_def split: option.splits)

lemma retriever_agent_run:
  "tools s ''retriever'' = Some t \<Longrightarrow> t (query s) = (Inr x, l) \<Longrightarrow>
   retriever_agent s =
     (s\<lparr>retrieved_documents := x, current_step := ''retrieval_complete''\<rparr>, l)"
  by (simp add: retriever_agent_def eff_catch_def eff_bind_def eff_return_def)

lemma langgraph_relays_sentinel:
  assumes run: "DocumentRetrieverTool_run str_upper r q = (Inr x, [])"
    and sent: "py_in ''Error'' x \<or> py_in ''No relevant documents'' x"
  shows "LangGraphMultiAgent_kickoff (make_tools str_upper gen r) [''query'' \<mapsto> q] = (x, [])"
proof -
  define s0 where "s0 =
     \<lparr>query = q, retrieved_documents = [], summarized_content = [], analysis_results = [],
      final_output = [], current_step = ''started'', error = [],
      tools = make_tools str_upper gen r\<rparr>"
  define s1 where
    "s1 = s0\<lparr>retrieved_documents := x, current_step := ''retrieval_complete''\<rparr>"
  define s2 where
    "s2 = s1\<lparr>summarized_content := x, current_step := ''summarization_complete''\<rparr>"
  define s3 where
    "s3 = s2\<lparr>analysis_results := x, current_step := ''analysis_complete''\<rparr>"
  have ne: "x \<noteq> []"
    using sent py_in_nonempty by blast
  have r1: "retriever_agent s0 = (s1, [])"
    unfolding s1_def
    by (rule retriever_agent_run [where t = "DocumentRetrieverTool_run str_upper r"])
      (simp_all add: s0_def make_tools_lookup run)
  have r2: "summarizer_agent s1 = (s2, [])"
    using summarizer_agent_relay [of s1 "ContentSummarizerTool_run gen"] sent
    by (simp add: s2_def s1_def s0_def make_tools_lookup)
  have r3: "analyst_agent s2 = (s3, [])"
    using analyst_agent_relay [of s2 "DocumentAnalyzerTool_run gen"] sent
    by (simp add: s3_def s2_def s1_def s0_def make_tools_lookup)
  have c: "content_to_format s3 = x"
    using ne by (simp add: content_to_format_cases s3_def)
  have r4: "quality_agent s3 = (s3\<lparr>final_output := x, current_step := ''complete''\<rparr>, [])"
    using quality_agent_relay [of s3] sent c by simp
  have "graph_invoke s0 = (s3\<lparr>final_output := x, current_step := ''complete''\<rparr>, [])"
    by (simp add: graph_invoke_unfold r1 r2 r3 r4)
  then show ?thesis
    by (simp add: LangGraphMultiAgent_kickoff_def dict_get_def s0_def)
qed

lemma simple_relays_sentinel:
  assumes run: "DocumentRetrieverTool_run str_upper r q = (Inr x, [])"
    and sent: "py_in ''Error'' x \<or> py_in ''No relevant documents'' x"
  shows "SimpleMultiAgent_kickoff (make_tools str_upper gen r) [''query'' \<mapsto> q] = (x, [])"
  using run sent
  by (simp add: SimpleMultiAgent_kickoff_def call_tool_def dict_index_def
      make_tools_lookup eff_catch_def eff_bind_def eff_return_def dict_get_def)

text \<open>
  C7. When the retriever's capability returns an empty sequence, the retrieval stage
  returns the empty-result marker, and both executors return exactly that marker having
  sent no prompt to the generation collaborator, whatever the collaborator is.
\<close>

theorem C7_empty_retrieval_short_circuit:
  "probe r q = Some (Inr []) \<longrightarrow>
     DocumentRetrieverTool_run str_upper r q = (Inr empty_result_marker, [])
     \<and> LangGraphMultiAgent_kickoff (make_tools str_upper gen r) [''query'' \<mapsto> q]
         = (empty_result_marker, [])
     \<and> SimpleMultiAgent_kickoff (make_tools str_upper gen r) [''query'' \<mapsto> q]
         = (empty_result_marker, [])"
proof
  assume p: "probe r q = Some (Inr [])"
  have run: "DocumentRetrieverTool_run str_upper r q = (Inr empty_result_marker, [])"
    using p by (simp add: DocumentRetrieverTool_run_def retrieval_result_def)
  have sent: "py_in ''Error'' empty_result_marker
      \<or> py_in ''No relevant documents'' empty_result_marker"
    using marker_no_relevant by simp
  show "DocumentRetrieverTool_run str_upper r q = (Inr empty_result_marker, [])
     \<and> LangGraphMultiAgent_kickoff (make_tools str_upper gen r) [''query'' \<mapsto> q]
         = (empty_result_marker, [])
     \<and> SimpleMultiAgent_kickoff (make_tools str_upper gen r) [''query'' \<mapsto> q]
         = (empty_result_marker, [])"
    using run langgraph_relays_sentinel [OF run sent] simple_relays_sentinel [OF run sent]
    by (intro conjI)
qed

theorem C7_empty_retrieval_short_circuit_witness:
  "DocumentRetrieverTool_run ascii_upper retriever_nothing ''xyzzy123nonsense''
     = (Inr empty_result_marker, [])
   \<and> LangGraphMultiAgent_kickoff (make_tools ascii_upper gen_ok retriever_nothing)
       [''query'' \<mapsto> ''xyzzy123nonsense''] = (empty_result_marker, [])
   \<and> SimpleMultiAgent_kickoff (make_tools ascii_upper gen_ok retriever_nothing)
       [''query'' \<mapsto> ''xyzzy123nonsense''] = (empty_result_marker, [])"
proof -
  have p: "probe retriever_nothing ''xyzzy123nonsense'' = Some (Inr [])"
    by (simp add: probe_def retriever_nothing_def)
  show ?thesis
    using C7_empty_retrieval_short_circuit [THEN mp, OF p] .
qed

subsection \<open>The frame of the agent nodes\<close>

lemma retriever_agent_frame:
  "\<exists>out l. retriever_agent s =
     (s\<lparr>retrieved_documents := out, current_step := ''retrieval_complete''\<rparr>, l)"
  by (auto simp: retriever_agent_def eff_catch_def eff_bind_def eff_return_def
      split: option.splits prod.splits sum.splits)

lemma summarizer_agent_frame:
  "\<exists>out l. summarizer_agent s =
     (s\<lparr>summarized_content := out, current_step := ''summarization_complete''\<rparr>, l)"
  by (auto simp: summarizer_agent_def eff_catch_def eff_bind_def eff_return_def
      split: option.splits prod.splits sum.splits)

lemma analyst_agent_frame:
  "\<exists>out l. analyst_agent s =
     (s\<lparr>analysis_results := out, current_step := ''analysis_complete''\<rparr>, l)"
  by (auto simp: analyst_agent_def eff_catch_def eff_bind_def eff_return_def
      split: option.splits prod.splits sum.splits)

lemma quality_agent_frame:
  "\<exists>out l. quality_agent s =
     (s\<lparr>final_output := out, current_step := ''complete''\<rparr>, l)"
  by (auto simp: quality_agent_def eff_catch_def eff_bind_def eff_return_def
      split: option.splits prod.splits sum.splits)

lemma retriever_agent_ref_pure:
  "retriever_agent_ref store a =
     (py_new_dict store (fst (retriever_agent (py_read store a))),
      snd (retriever_agent (py_read store a)))"
  by (simp add: retriever_agent_ref_def retriever_agent_def eff_catch_def eff_bind_def
      eff_return_def split: option.splits prod.splits sum.splits)

lemma summarizer_agent_ref_pure:
  "summarizer_agent_ref store a =
     (py_new_dict store (fst (summarizer_agent (py_read store a))),
      snd (summarizer_agent (py_read store a)))"
  by (simp add: summarizer_agent_ref_def summarizer_agent_def eff_catch_def eff_bind_def
      eff_return_def split: option.splits prod.splits sum.splits)

lemma analyst_agent_ref_pure:
  "analyst_agent_ref store a =
     (py_new_dict store (fst (analyst_agent (py_read store a))),
      snd (analyst_agent (py_read store a)))"
  by (simp add: analyst_agent_ref_def analyst_agent_def eff_catch_def eff_bind_def
      eff_return_def split: option.splits prod.splits sum.splits)

lemma quality_agent_ref_pure:
  "quality_agent_ref store a =
     (py_new_dict store (fst (quality_agent (py_read store a))),
      snd (quality_agent (py_read store a)))"
  by (simp add: quality_agent_ref_def quality_agent_def eff_catch_def eff_bind_def
      eff_return_def split: option.splits prod.splits sum.splits)

lemma py_new_dict_keeps:
  "a < length store \<Longrightarrow>
   \<exists>store' a'. py_new_dict store d = (store', a') \<and> a' \<noteq> a \<and> length store \<le> a'
     \<and> (\<forall>b < length store. store' ! b = store ! b) \<and> store' ! a' = d"
  by (simp add: py_new_dict_def nth_append)

lemma py_setitem_changes_object:
  "a < length store \<Longrightarrow> upd (store ! a) \<noteq> store ! a \<Longrightarrow>
   py_setitem store a upd ! a \<noteq> store ! a"
  by (simp add: py_setitem_def)

lemma retriever_agent_ref_fresh:
  assumes "a < length store"
  shows "\<exists>store' a' out l. retriever_agent_ref store a = ((store', a'), l)
     \<and> a' \<noteq> a \<and> length store \<le> a' \<and> (\<forall>b < length store. store' ! b = store ! b)
     \<and> store' ! a' =
         (store ! a)\<lparr>retrieved_documents := out, current_step := ''retrieval_complete''\<rparr>"
proof -
  obtain out l where f: "retriever_agent (store ! a) =
      ((store ! a)\<lparr>retrieved_documents := out, current_step := ''retrieval_complete''\<rparr>, l)"
    using retriever_agent_frame [of "store ! a"] by blast
  show ?thesis
    using py_new_dict_keeps [OF assms,
        of "(store ! a)\<lparr>retrieved_documents := out, current_step := ''retrieval_complete''\<rparr>"]
    by (auto simp: retriever_agent_ref_pure py_read_def f)
qed

lemma summarizer_agent_ref_fresh:
  assumes "a < length store"
  shows "\<exists>store' a' out l. summarizer_agent_ref store a = ((store', a'), l)
     \<and> a' \<noteq> a \<and> length store \<le> a' \<and> (\<forall>b < length store. store' ! b = store ! b)
     \<and> store' ! a' =
         (store ! a)\<lparr>summarized_content := out, current_step := ''summarization_complete''\<rparr>"
proof -
  obtain out l where f: "summarizer_agent (store ! a) =
      ((store ! a)\<lparr>summarized_content := out, current_step := ''summarization_complete''\<rparr>, l)"
    using summarizer_agent_frame [of "store ! a"] by blast
  show ?thesis
    using py_new_dict_keeps [OF assms,
        of "(store ! a)\<lparr>summarized_content := out,
              current_step := ''summarization_complete''\<rparr>"]
    by (auto simp: summarizer_agent_ref_pure py_read_def f)
qed

lemma analyst_agent_ref_fresh:
  assumes "a < length store"
  shows "\<exists>store' a' out l. analyst_agent_ref store a = ((store', a'), l)
     \<and> a' \<noteq> a \<and> length store \<le> a' \<and> (\<forall>b < length store. store' ! b = store ! b)
     \<and> store' ! a' =
         (store ! a)\<lparr>analysis_results := out, current_step := ''analysis_complete''\<rparr>"
proof -
  obtain out l where f: "analyst_agent (store ! a) =
      ((store ! a)\<lparr>analysis_results := out, current_step := ''analysis_complete''\<rparr>, l)"
    using analyst_agent_frame [of "store ! a"] by blast
  show ?thesis
    using py_new_dict_keeps [OF assms,
        of "(store ! a)\<lparr>analysis_results := out, current_step := ''analysis_complete''\<rparr>"]
    by (auto simp: analyst_agent_ref_pure py_read_def f)
qed

lemma quality_agent_ref_fresh:
  assumes "a < length store"
  shows "\<exists>store' a' out l. quality_agent_ref store a = ((store', a'), l)
     \<and> a' \<noteq> a \<and> length store \<le> a' \<and> (\<forall>b < length store. store' ! b = store ! b)
     \<and> store' ! a' = (store ! a)\<lparr>final_output := out, current_step := ''complete''\<rparr>"
proof -
  obtain out l where f: "quality_agent (store ! a) =
      ((store ! a)\<lparr>final_output := out, current_step := ''complete''\<rparr>, l)"
    using quality_agent_frame [of "store ! a"] by blast
  show ?thesis
    using py_new_dict_keeps [OF assms,
        of "(store ! a)\<lparr>final_output := out, current_step := ''complete''\<rparr>"]
    by (auto simp: quality_agent_ref_pure py_read_def f)
qed

text \<open>
  C8. Each of the four nodes returns its input state with only its own output field and
  \<open>current_step\<close> set: \<open>query\<close> and every other field are those of the input. On
  dictionary objects, each node, given a reference to its input, returns a reference to
  a new object, which is that copy of the input, and leaves every object that was in
  the store, the input among them, as it was.
\<close>

theorem C8_copy_on_write_frame:
  "(\<exists>out l. retriever_agent s =
       (s\<lparr>retrieved_documents := out, current_step := ''retrieval_complete''\<rparr>, l))
   \<and> (\<exists>out l. summarizer_agent s =
       (s\<lparr>summarized_content := out, current_step := ''summarization_complete''\<rparr>, l))
   \<and> (\<exists>out l. analyst_agent s =
       (s\<lparr>analysis_results := out, current_step := ''analysis_complete''\<rparr>, l))
   \<and> (\<exists>out l. quality_agent s =
       (s\<lparr>final_output := out, current_step := ''complete''\<rparr>, l))
   \<and> query (fst (retriever_agent s)) = query s
   \<and> query (fst (summarizer_agent s)) = query s
   \<and> query (fst (analyst_agent s)) = query s
   \<and> query (fst (quality_agent s)) = query s
   \<and> (a < length store \<longrightarrow>
        (\<exists>store' a' out l. retriever_agent_ref store a = ((store', a'), l)
           \<and> a' \<noteq> a \<and> length store \<le> a' \<and> (\<forall>b < length store. store' ! b = store ! b)
           \<and> store' ! a' =
               (store ! a)\<lparr>retrieved_documents := out,
                  current_step := ''retrieval_complete''\<rparr>)
        \<and> (\<exists>store' a' out l. summarizer_agent_ref store a = ((store', a'), l)
           \<and> a' \<noteq> a \<and> length store \<le> a' \<and> (\<forall>b < length store. store' ! b = store ! b)
           \<and> store' ! a' =
               (store ! a)\<lparr>summarized_content := out,
                  current_step := ''summarization_complete''\<rparr>)
        \<and> (\<exists>store' a' out l. analyst_agent_ref store a = ((store', a'), l)
           \<and> a' \<noteq> a \<and> length store \<le> a' \<and> (\<forall>b < length store. store' ! b = store ! b)
           \<and> store' ! a' =
               (store ! a)\<lparr>analysis_results := out, current_step := ''analysis_complete''\<rparr>)
        \<and> (\<exists>store' a' out l. quality_agent_ref store a = ((store', a'), l)
           \<and> a' \<noteq> a \<and> length store \<le> a' \<and> (\<forall>b < length store. store' ! b = store ! b)
           \<and> store' ! a' = (store ! a)\<lparr>final_output := out, current_step := ''complete''\<rparr>))"
proof -
  have q1: "query (fst (retriever_agent s)) = query s"
    using retriever_agent_frame [of s] by auto
  have q2: "query (fst (summarizer_agent s)) = query s"
    using summarizer_agent_frame [of s] by auto
  have q3: "query (fst (analyst_agent s)) = query s"
    using analyst_agent_frame [of s] by auto
  have q4: "query (fst (quality_agent s)) = query s"
    using quality_agent_frame [of s] by auto
  note fresh = retriever_agent_ref_fresh [of a store] summarizer_agent_ref_fresh [of a store]
    analyst_agent_ref_fresh [of a store] quality_agent_ref_fresh [of a store]
  show ?thesis
    using retriever_agent_frame [of s] summarizer_agent_frame [of s]
      analyst_agent_frame [of s] quality_agent_frame [of s] q1 q2 q3 q4 fresh
    by (intro conjI impI) assumption+
qed

theorem C8_copy_on_write_frame_witness:
  "query (fst (quality_agent state_analysed)) = ''q''
   \<and> (\<exists>store' a' out l. retriever_agent_ref [state_all_empty] 0 = ((store', a'), l)
         \<and> a' \<noteq> 0 \<and> store' ! 0 = state_all_empty
         \<and> store' ! a' =
             state_all_empty\<lparr>retrieved_documents := out,
                current_step := ''retrieval_complete''\<rparr>)
   \<and> retriever_agent_ref [state_all_empty] 0 =
       (([state_all_empty,
          state_all_empty\<lparr>retrieved_documents := empty_result_marker,
             current_step := ''retrieval_complete''\<rparr>], 1), [])"
proof -
  have h: "0 < length [state_all_empty]"
    by simp
  note fr = C8_copy_on_write_frame [where s = state_analysed and a = 0
      and store = "[state_all_empty]"]
  have a: "query (fst (quality_agent state_analysed)) = ''q''"
    using fr by (simp add: state_analysed_def)
  have b: "\<exists>store' a' out l. retriever_agent_ref [state_all_empty] 0 = ((store', a'), l)
         \<and> a' \<noteq> 0 \<and> store' ! 0 = state_all_empty
         \<and> store' ! a' =
             state_all_empty\<lparr>retrieved_documents := out,
                current_step := ''retrieval_complete''\<rparr>"
    using fr [THEN conjunct2, THEN conjunct2, THEN conjunct2, THEN conjunct2, THEN conjunct2,
        THEN conjunct2, THEN conjunct2, THEN conjunct2, THEN mp, OF h, THEN conjunct1]
    by auto
  have p: "DocumentRetrieverTool_run ascii_upper retriever_nothing ''q''
      = (Inr empty_result_marker, [])"
    by (simp add: DocumentRetrieverTool_run_def probe_def retriever_nothing_def
        retrieval_result_def)
  have c: "retriever_agent state_all_empty =
     (state_all_empty\<lparr>retrieved_documents := empty_result_marker,
        current_step := ''retrieval_complete''\<rparr>, [])"
    by (rule retriever_agent_run
          [where t = "DocumentRetrieverTool_run ascii_upper retriever_nothing"])
      (simp_all add: state_all_empty_def make_tools_lookup p)
  have d: "retriever_agent_ref [state_all_empty] 0 =
       (([state_all_empty,
          state_all_empty\<lparr>retrieved_documents := empty_result_marker,
             current_step := ''retrieval_complete''\<rparr>], 1), [])"
    by (simp add: retriever_agent_ref_pure py_read_def py_new_dict_def c)
  show ?thesis
    using a b d by (intro conjI)
qed

subsection \<open>Where the two executors part\<close>

text \<open>
  C2. The graph executor and the sequential executor are run with the same tools on the
  same query: one document is retrieved, the summarizer's generation call fails and the
  analyzer's succeeds. The graph executor relays the summarizer's error marker to the
  end; the sequential executor, which tests for sentinels after retrieval only, sends
  the error marker to the analyzer, and formats and cites the analysis of it. The two
  final outputs differ.
\<close>

theorem C2_executors_diverge:
  "fst (LangGraphMultiAgent_kickoff (make_tools ascii_upper gen_summary_fails retriever_one)
          [''query'' \<mapsto> ''q''])
     = ''Error generating summary: quota exceeded''
   \<and> fst (SimpleMultiAgent_kickoff (make_tools ascii_upper gen_summary_fails retriever_one)
          [''query'' \<mapsto> ''q''])
     = citation_head @ formatter_head @ emoji_mag @ '' ANALYSIS RESULTS:'' @ nl @ ''ok''
         @ formatter_tail @ citation_tail
   \<and> fst (LangGraphMultiAgent_kickoff (make_tools ascii_upper gen_summary_fails retriever_one)
          [''query'' \<mapsto> ''q''])
     \<noteq> fst (SimpleMultiAgent_kickoff (make_tools ascii_upper gen_summary_fails retriever_one)
          [''query'' \<mapsto> ''q''])"
  by code_simp

subsection \<open>Final-output precedence\<close>

lemma py_in_across_newline:
  assumes "CHR 0x0A \<notin> set needle"
  shows "py_in needle (a @ nl @ b) \<longleftrightarrow> py_in needle a \<or> py_in needle b"
proof
  assume "py_in needle (a @ nl @ b)"
  then have "sublist needle (a @ CHR 0x0A # b)"
    by (simp add: py_in_def nl_def)
  then consider "sublist needle a" | "sublist needle (CHR 0x0A # b)"
    | xs1 xs2 where "needle = xs1 @ xs2" "suffix xs1 a" "prefix xs2 (CHR 0x0A # b)"
    by (auto simp: sublist_append)
  then show "py_in needle a \<or> py_in needle b"
  proof cases
    case 1
    then show ?thesis by (simp add: py_in_def)
  next
    case 2
    then have "prefix needle (CHR 0x0A # b) \<or> sublist needle b"
      by (simp add: sublist_Cons_right)
    then show ?thesis
    proof
      assume "prefix needle (CHR 0x0A # b)"
      then have "needle = []"
        using assms by (cases needle) (auto simp: prefix_Cons)
      then show ?thesis by (simp add: py_in_def)
    next
      assume "sublist needle b"
      then show ?thesis by (simp add: py_in_def)
    qed
  next
    case 3
    have "xs2 = []"
      using 3(1,3) assms by (cases xs2) (auto simp: prefix_Cons)
    then have "suffix needle a"
      using 3(1,2) by simp
    then have "sublist needle a"
      by (auto simp: suffix_def)
    then show ?thesis
      by (simp add: py_in_def)
  qed
next
  assume "py_in needle a \<or> py_in needle b"
  then show "py_in needle (a @ nl @ b)"
    by (auto simp: py_in_def sublist_append)
qed

lemma error_has_no_newline: "CHR 0x0A \<notin> set ''Error''"
  by simp

lemma formatter_head_split:
  "formatter_head = (emoji_sparkles @ '' PROFESSIONALLY FORMATTED RESPONSE:'') @ nl @ nl"
  by (simp add: formatter_head_def)

lemma formatter_head_clean:
  "\<not> py_in ''Error'' (emoji_sparkles @ '' PROFESSIONALLY FORMATTED RESPONSE:'')"
  by code_simp

lemma formatter_tail_clean: "\<not> py_in ''Error'' formatter_tail"
  by code_simp

lemma formatted_clean:
  assumes "\<not> py_in ''Error'' c"
  shows "\<not> py_in ''Error'' (formatter_head @ c @ formatter_tail)"
proof -
  have t: "formatter_tail = [] @ nl @ tl formatter_tail"
    by (simp add: formatter_tail_def nl_def)
  have tc: "\<not> py_in ''Error'' (tl formatter_tail)"
    by code_simp
  have e: "\<not> py_in ''Error'' []"
    by (simp add: py_in_def)
  have 1: "\<not> py_in ''Error'' (c @ nl @ tl formatter_tail)"
    using assms tc by (simp add: py_in_across_newline [OF error_has_no_newline])
  have 2: "\<not> py_in ''Error'' ([] @ nl @ (c @ nl @ tl formatter_tail))"
    using e 1 by (simp only: py_in_across_newline [OF error_has_no_newline] simp_thms)
  have 3: "\<not> py_in ''Error''
      ((emoji_sparkles @ '' PROFESSIONALLY FORMATTED RESPONSE:'') @ nl
         @ ([] @ nl @ (c @ nl @ tl formatter_tail)))"
    using formatter_head_clean 2
    by (simp only: py_in_across_newline [OF error_has_no_newline] simp_thms)
  have "formatter_head @ c @ formatter_tail =
      (emoji_sparkles @ '' PROFESSIONALLY FORMATTED RESPONSE:'') @ nl
         @ ([] @ nl @ (c @ nl @ tl formatter_tail))"
    by (simp add: formatter_head_def formatter_tail_def nl_def)
  then show ?thesis
    using 3 by simp
qed

lemma quality_agent_applies:
  assumes f: "tools s ''formatter'' = Some f" and g: "tools s ''citations'' = Some g"
    and clean: "content_to_format s \<noteq> []" "\<not> py_in ''Error'' (content_to_format s)"
      "\<not> py_in ''No relevant documents'' (content_to_format s)"
    and fo: "f (content_to_format s) = (Inr formatted, l1)"
    and go: "g formatted = (Inr cited, l2)"
  shows "quality_agent s = (s\<lparr>final_output := cited, current_step := ''complete''\<rparr>, l1 @ l2)"
  using assms
  by (simp add: quality_agent_def eff_catch_def eff_bind_def eff_return_def)

lemma quality_agent_real_tools:
  assumes f: "tools s ''formatter'' = Some ContentFormatterTool_run"
    and g: "tools s ''citations'' = Some CitationManagerTool_run"
    and clean: "content_to_format s \<noteq> []" "\<not> py_in ''Error'' (content_to_format s)"
      "\<not> py_in ''No relevant documents'' (content_to_format s)"
  shows "quality_agent s =
     (s\<lparr>final_output :=
          citation_head @ (formatter_head @ content_to_format s @ formatter_tail) @ citation_tail,
        current_step := ''complete''\<rparr>, [])"
proof -
  let ?c = "content_to_format s"
  have fo: "ContentFormatterTool_run ?c = (Inr (formatter_head @ ?c @ formatter_tail), [])"
    using clean by (simp add: ContentFormatterTool_run_def)
  have ne: "formatter_head @ ?c @ formatter_tail \<noteq> []"
    using clean by simp
  have go: "CitationManagerTool_run (formatter_head @ ?c @ formatter_tail) =
      (Inr (citation_head @ (formatter_head @ ?c @ formatter_tail) @ citation_tail), [])"
    using formatted_clean [OF clean(2)] ne
    by (simp only: CitationManagerTool_run_def simp_thms if_False)
  show ?thesis
    using quality_agent_applies [OF f g clean fo go] by simp
qed

text \<open>
  C3, as amended. The content the quality stage chooses for formatting and citation is
  \<open>analysis_results\<close> if it is non-empty, otherwise \<open>summarized_content\<close> if that is
  non-empty, otherwise \<open>retrieved_documents\<close>. When the chosen content is non-empty and
  carries no sentinel, the final output is what the citation tool returns on what the
  formatter returns on it: with the repository's two tools, the chosen content between
  the formatter's and then the citation manager's fixed texts. Otherwise the final
  output is the chosen content itself, and no tool is called; so when all three fields
  are empty the final output is the empty string.
\<close>

theorem C3_precedence:
  "(analysis_results s \<noteq> [] \<longrightarrow> content_to_format s = analysis_results s)
   \<and> (analysis_results s = [] \<and> summarized_content s \<noteq> []
        \<longrightarrow> content_to_format s = summarized_content s)
   \<and> (analysis_results s = [] \<and> summarized_content s = []
        \<longrightarrow> content_to_format s = retrieved_documents s)
   \<and> (tools s ''formatter'' = Some f \<and> tools s ''citations'' = Some g
        \<and> content_to_format s \<noteq> [] \<and> \<not> py_in ''Error'' (content_to_format s)
        \<and> \<not> py_in ''No relevant documents'' (content_to_format s)
        \<and> f (content_to_format s) = (Inr formatted, l1) \<and> g formatted = (Inr cited, l2)
        \<longrightarrow> quality_agent s =
              (s\<lparr>final_output := cited, current_step := ''complete''\<rparr>, l1 @ l2))
   \<and> (tools s ''formatter'' = Some ContentFormatterTool_run
        \<and> tools s ''citations'' = Some CitationManagerTool_run
        \<and> content_to_format s \<noteq> [] \<and> \<not> py_in ''Error'' (content_to_format s)
        \<and> \<not> py_in ''No relevant documents'' (content_to_format s)
        \<longrightarrow> quality_agent s =
              (s\<lparr>final_output :=
                   citation_head @ (formatter_head @ content_to_format s @ formatter_tail)
                     @ citation_tail,
                 current_step := ''complete''\<rparr>, []))
   \<and> (content_to_format s = [] \<or> py_in ''Error'' (content_to_format s)
        \<or> py_in ''No relevant documents'' (content_to_format s)
        \<longrightarrow> quality_agent s =
              (s\<lparr>final_output := content_to_format s, current_step := ''complete''\<rparr>, []))
   \<and> (analysis_results s = [] \<and> summarized_content s = [] \<and> retrieved_documents s = []
        \<longrightarrow> quality_agent s = (s\<lparr>final_output := [], current_step := ''complete''\<rparr>, []))"
proof -
  have p: "(analysis_results s \<noteq> [] \<longrightarrow> content_to_format s = analysis_results s)
   \<and> (analysis_results s = [] \<and> summarized_content s \<noteq> []
        \<longrightarrow> content_to_format s = summarized_content s)
   \<and> (analysis_results s = [] \<and> summarized_content s = []
        \<longrightarrow> content_to_format s = retrieved_documents s)"
    by (simp add: content_to_format_cases)
  have a: "tools s ''formatter'' = Some f \<and> tools s ''citations'' = Some g
        \<and> content_to_format s \<noteq> [] \<and> \<not> py_in ''Error'' (content_to_format s)
        \<and> \<not> py_in ''No relevant documents'' (content_to_format s)
        \<and> f (content_to_format s) = (Inr formatted, l1) \<and> g formatted = (Inr cited, l2)
        \<longrightarrow> quality_agent s =
              (s\<lparr>final_output := cited, current_step := ''complete''\<rparr>, l1 @ l2)"
    using quality_agent_applies [of s f g formatted l1 cited l2] by blast
  have r: "tools s ''formatter'' = Some ContentFormatterTool_run
        \<and> tools s ''citations'' = Some CitationManagerTool_run
        \<and> content_to_format s \<noteq> [] \<and> \<not> py_in ''Error'' (content_to_format s)
        \<and> \<not> py_in ''No relevant documents'' (content_to_format s)
        \<longrightarrow> quality_agent s =
              (s\<lparr>final_output :=
                   citation_head @ (formatter_head @ content_to_format s @ formatter_tail)
                     @ citation_tail,
                 current_step := ''complete''\<rparr>, [])"
    using quality_agent_real_tools [of s] by blast
  have y: "content_to_format s = [] \<or> py_in ''Error'' (content_to_format s)
        \<or> py_in ''No relevant documents'' (content_to_format s)
        \<longrightarrow> quality_agent s =
              (s\<lparr>final_output := content_to_format s, current_step := ''complete''\<rparr>, [])"
    using quality_agent_relay [of s] by blast
  have e: "analysis_results s = [] \<and> summarized_content s = [] \<and> retrieved_documents s = []
        \<longrightarrow> quality_agent s = (s\<lparr>final_output := [], current_step := ''complete''\<rparr>, [])"
    using quality_agent_relay [of s] by (auto simp: content_to_format_cases)
  show ?thesis
    using p a r y e by blast
qed

text \<open>
  C3 as stated fails in its last clause: with all three fields empty the final output is
  the empty string, not the empty-result marker.
\<close>

theorem C3_all_empty_counterexample:
  "final_output (fst (quality_agent state_all_empty)) = []
   \<and> final_output (fst (quality_agent state_all_empty)) \<noteq> empty_result_marker"
  by (simp add: quality_agent_relay content_to_format_cases state_all_empty_def
      empty_result_marker_def)

theorem C3_precedence_witness:
  "content_to_format state_analysed = ''deep''
   \<and> content_to_format (state_analysed\<lparr>analysis_results := []\<rparr>) = ''short''
   \<and> content_to_format (state_analysed\<lparr>analysis_results := [], summarized_content := []\<rparr>)
       = ''raw''
   \<and> quality_agent state_analysed =
       (state_analysed\<lparr>final_output :=
            citation_head @ (formatter_head @ ''deep'' @ formatter_tail) @ citation_tail,
          current_step := ''complete''\<rparr>, [])
   \<and> quality_agent state_no_documents =
       (state_no_documents\<lparr>final_output := empty_result_marker,
          current_step := ''complete''\<rparr>, [])
   \<and> quality_agent state_all_empty =
       (state_all_empty\<lparr>final_output := [], current_step := ''complete''\<rparr>, [])"
proof -
  have deep: "content_to_format state_analysed = ''deep''"
    by (simp add: content_to_format_cases state_analysed_def)
  have clean: "\<not> py_in ''Error'' ''deep'' \<and> \<not> py_in ''No relevant documents'' ''deep''"
    by (simp add: py_in_def sublist_code prefix_code)
  have h: "tools state_analysed ''formatter'' = Some ContentFormatterTool_run
        \<and> tools state_analysed ''citations'' = Some CitationManagerTool_run
        \<and> content_to_format state_analysed \<noteq> []
        \<and> \<not> py_in ''Error'' (content_to_format state_analysed)
        \<and> \<not> py_in ''No relevant documents'' (content_to_format state_analysed)"
    using clean by (simp add: deep) (simp add: state_analysed_def make_tools_lookup)
  note i = C3_precedence [where s = state_analysed]
  have q1: "quality_agent state_analysed =
       (state_analysed\<lparr>final_output :=
            citation_head @ (formatter_head @ ''deep'' @ formatter_tail) @ citation_tail,
          current_step := ''complete''\<rparr>, [])"
    using i [THEN conjunct2, THEN conjunct2, THEN conjunct2, THEN conjunct2, THEN conjunct1,
        THEN mp, OF h]
    by (simp only: deep)
  have m: "content_to_format state_no_documents = empty_result_marker"
    by (simp add: content_to_format_cases state_no_documents_def empty_result_marker_def)
  have q2: "quality_agent state_no_documents =
       (state_no_documents\<lparr>final_output := empty_result_marker,
          current_step := ''complete''\<rparr>, [])"
    using C3_precedence [where s = state_no_documents] marker_no_relevant
    by (simp add: m)
  have q3: "quality_agent state_all_empty =
       (state_all_empty\<lparr>final_output := [], current_step := ''complete''\<rparr>, [])"
    using C3_precedence [where s = state_all_empty]
    by (simp add: state_all_empty_def)
  have c2: "content_to_format (state_analysed\<lparr>analysis_results := []\<rparr>) = ''short''"
    using C3_precedence [where s = "state_analysed\<lparr>analysis_results := []\<rparr>"]
    by (simp add: state_analysed_def)
  have c3: "content_to_format
      (state_analysed\<lparr>analysis_results := [], summarized_content := []\<rparr>) = ''raw''"
    using C3_precedence
      [where s = "state_analysed\<lparr>analysis_results := [], summarized_content := []\<rparr>"]
    by (simp add: state_analysed_def)
  show ?thesis
    using deep c2 c3 q1 q2 q3 by (intro conjI)
qed

subsection \<open>Source attribution in the adapter's and the citation manager's output\<close>





subsection \<open>The multi-document coordinator\<close>









end
